theory Spec2Isabelle
  imports Main
begin

section \<open>Data model of the workflow tracker (streamlit\_app.py)\<close>

text \<open>
  The enumerations of the source. \<open>CaseStatus\<close> lists its members in the order of
  the class body.
\<close>

datatype SignatureType = DOCUSIGN | WET | POSITIVE_CONSENT

datatype CaseStatus =
    DRAFT
  | READY_TO_SEND
  | SENT_TO_CLIENT
  | CLIENT_SIGNED
  | CLIENT_OPTED_OUT
  | RECEIVED_PAPERWORK
  | SUBMITTED_TO_PROVIDER
  | PROVIDER_UPLIFTED
  | IO_CLOSED_NEW_FEE
  | COMPLETED

datatype TaskStatus = OPEN | DONE | CANCELLED

text \<open>
  Python's exceptions the modelled code can raise.
\<close>

datatype error = OverflowError

text \<open>
  A \<open>datetime\<close> is the count of microseconds since 0001-01-01 00:00:00, the least value
  of Python's type; \<open>datetime_max\<close> is the greatest, the last microsecond of the year
  9999. \<open>timedelta(days=d)\<close> is \<open>d\<close> days of 86400 seconds. Building it raises
  \<open>OverflowError\<close> for more than 999999999 days in either direction, and adding it to
  a datetime raises \<open>OverflowError\<close> when the sum leaves the range of the type:
  \<open>datetime_plus_days t d\<close> is \<open>t + timedelta(days=d)\<close>. Every reading of
  \<open>datetime.utcnow()\<close> is an explicit argument of the function that makes it.
\<close>

type_synonym datetime = int

definition datetime_max :: datetime where
  "datetime_max = 315537897599999999"

definition timedelta :: "int \<Rightarrow> int" where
  "timedelta days = days * 86400000000"

definition days_in_range :: "datetime \<Rightarrow> int \<Rightarrow> bool" where
  "days_in_range t days \<longleftrightarrow>
     \<bar>days\<bar> \<le> 999999999 \<and> 0 \<le> t + timedelta days \<and> t + timedelta days \<le> datetime_max"

definition datetime_plus_days :: "datetime \<Rightarrow> int \<Rightarrow> error + datetime" where
  "datetime_plus_days t days =
     (if days_in_range t days then Inr (t + timedelta days) else Inl OverflowError)"

text \<open>
  The ORM classes, with the columns and relationships the workflow engine and case
  creation read or write. A nullable column is an \<open>option\<close>. The primary key of an
  object that was never flushed is \<open>None\<close>. The two relationship collections of a case,
  \<open>tasks\<close> and \<open>logs\<close>, are lists on the case: constructing \<open>Task(case=case)\<close> or
  \<open>AuditLog(case=case)\<close> appends to them through \<open>back_populates\<close>.
  \<open>sla_days\<close> is the integer the creation form stores. Columns that neither the
  engine nor case creation touches (\<open>updated_at\<close>, the documents, a user's email and
  role, a client's reference and opt-out flag) are left out, as are the timestamps and
  keys the database gives a task or an audit entry when it is flushed.
\<close>

record Team =
  team_id :: nat
  team_name :: string

record User =
  user_id :: nat
  user_name :: string

record Provider =
  provider_id :: nat
  provider_name :: string

record Client =
  client_id :: nat
  client_name :: string
  client_provider_id :: nat

record Task =
  task_case_id :: "nat option"
  task_team :: Team
  task_title :: string
  task_status :: TaskStatus
  task_due_at :: datetime

record AuditLog =
  auditlog_case_id :: "nat option"
  auditlog_user_id :: "nat option"
  auditlog_action :: string
  auditlog_notes :: string
  auditlog_meta :: "(string \<times> string) list"

record Case =
  case_id :: "nat option"
  title :: string
  case_client_id :: nat
  case_provider_id :: nat
  signature_type :: SignatureType
  status :: CaseStatus
  assigned_team :: "Team option"
  sla_days :: int
  created_at :: "datetime option"
  due_at :: "datetime option"
  tasks :: "Task list"
  logs :: "AuditLog list"

text \<open>
  The session: the rows of the tables a query can see, and the objects handed to
  \<open>session.add\<close>. \<open>db_teams\<close> is the \<open>teams\<close> table in the order a query returns it.
\<close>

record Session =
  db_teams :: "Team list"
  db_providers :: "Provider list"
  db_clients :: "Client list"
  db_cases :: "Case list"
  db_tasks :: "Task list"
  db_audit_logs :: "AuditLog list"

section \<open>The workflow engine\<close>

text \<open>\<open>NEXT_TEAM_HINT\<close>: the dictionary literal, item by item.\<close>

definition NEXT_TEAM_HINT :: "(CaseStatus \<times> string option) list" where
  "NEXT_TEAM_HINT =
    [(DRAFT, Some ''Data''),
     (READY_TO_SEND, Some ''Admin Solution''),
     (SENT_TO_CLIENT, Some ''Ops Support''),
     (CLIENT_SIGNED, Some ''Submission & Novation''),
     (CLIENT_OPTED_OUT, Some ''Support Hub''),
     (RECEIVED_PAPERWORK, Some ''Submission & Novation''),
     (SUBMITTED_TO_PROVIDER, Some ''Tech Excellence Center''),
     (PROVIDER_UPLIFTED, Some ''IS''),
     (IO_CLOSED_NEW_FEE, Some ''Admin Solution''),
     (COMPLETED, None)]"

text \<open>
  \<open>NEXT_TEAM_HINT.get(status)\<close>: the stored value, or \<open>None\<close> for a missing key; a
  stored \<open>None\<close> and a missing key are the same result.
\<close>

definition NEXT_TEAM_HINT_get :: "CaseStatus \<Rightarrow> string option" where
  "NEXT_TEAM_HINT_get s = (case map_of NEXT_TEAM_HINT s of None \<Rightarrow> None | Some v \<Rightarrow> v)"

text \<open>\<open>TRANSITIONS\<close>: the dictionary literal, item by item, and its lookup.\<close>

definition TRANSITIONS_items :: "((CaseStatus \<times> string) \<times> (CaseStatus \<times> string)) list" where
  "TRANSITIONS_items =
    [((DRAFT, ''Mark Ready to Send''), (READY_TO_SEND, ''ready_to_send'')),
     ((READY_TO_SEND, ''Send to Client''), (SENT_TO_CLIENT, ''sent_to_client'')),
     ((SENT_TO_CLIENT, ''Mark Client Signed''), (CLIENT_SIGNED, ''client_signed'')),
     ((SENT_TO_CLIENT, ''Mark Client Opted Out''), (CLIENT_OPTED_OUT, ''client_opted_out'')),
     ((CLIENT_SIGNED, ''Mark Docs Received''), (RECEIVED_PAPERWORK, ''received_paperwork'')),
     ((RECEIVED_PAPERWORK, ''Submit to Provider''), (SUBMITTED_TO_PROVIDER, ''submitted_to_provider'')),
     ((SUBMITTED_TO_PROVIDER, ''Provider Uplifted''), (PROVIDER_UPLIFTED, ''provider_uplifted'')),
     ((PROVIDER_UPLIFTED, ''Close Fee in IO & Create New''), (IO_CLOSED_NEW_FEE, ''io_closed_new_fee'')),
     ((IO_CLOSED_NEW_FEE, ''Complete Case''), (COMPLETED, ''completed''))]"

definition TRANSITIONS :: "CaseStatus \<times> string \<Rightarrow> (CaseStatus \<times> string) option" where
  "TRANSITIONS key = map_of TRANSITIONS_items key"

text \<open>
  \<open>assign_next_team\<close>. \<open>not hint\<close> holds for \<open>None\<close> and for the empty string.
  \<open>session.query(Team).filter(Team.name == hint).first()\<close> is the first row of the
  table with that name, or \<open>None\<close>.
\<close>

definition assign_next_team :: "Session \<Rightarrow> Case \<Rightarrow> Case" where
  "assign_next_team session c =
    (case NEXT_TEAM_HINT_get (status c) of
       None \<Rightarrow> c\<lparr>assigned_team := None\<rparr>
     | Some hint \<Rightarrow>
         if hint = [] then c\<lparr>assigned_team := None\<rparr>
         else c\<lparr>assigned_team := find (\<lambda>t. team_name t = hint) (db_teams session)\<rparr>)"

text \<open>
  \<open>create_task_for_case\<close>; \<open>now\<close> is its reading of the clock. Without an assigned
  team it returns at once. Otherwise the due date is computed, which can raise, and the
  new task joins the case's \<open>tasks\<close> collection and the session.
\<close>

definition create_task_for_case ::
  "Session \<Rightarrow> Case \<Rightarrow> string \<Rightarrow> int \<Rightarrow> datetime \<Rightarrow> error + Case \<times> Session" where
  "create_task_for_case session c ttl due_days now =
    (case assigned_team c of
       None \<Rightarrow> Inr (c, session)
     | Some team \<Rightarrow>
         (case datetime_plus_days now due_days of
            Inl e \<Rightarrow> Inl e
          | Inr due \<Rightarrow>
              let task = \<lparr>task_case_id = case_id c, task_team = team, task_title = ttl,
                          task_status = OPEN, task_due_at = due\<rparr>
              in Inr (c\<lparr>tasks := tasks c @ [task]\<rparr>,
                      session\<lparr>db_tasks := db_tasks session @ [task]\<rparr>)))"

text \<open>
  \<open>log_action\<close>. \<open>meta or {}\<close> is the empty mapping when \<open>meta\<close> is \<open>None\<close> or empty.
\<close>

definition log_action ::
  "Session \<Rightarrow> Case \<Rightarrow> User option \<Rightarrow> string \<Rightarrow> string \<Rightarrow> (string \<times> string) list option
    \<Rightarrow> Case \<times> Session" where
  "log_action session c user action notes meta =
    (let entry = \<lparr>auditlog_case_id = case_id c,
                  auditlog_user_id = (case user of None \<Rightarrow> None | Some u \<Rightarrow> Some (user_id u)),
                  auditlog_action = action, auditlog_notes = notes,
                  auditlog_meta = (case meta of None \<Rightarrow> [] | Some m \<Rightarrow> m)\<rparr>
     in (c\<lparr>logs := logs c @ [entry]\<rparr>,
         session\<lparr>db_audit_logs := db_audit_logs session @ [entry]\<rparr>))"

text \<open>
  The text a status formats to inside the f-string of the task title depends on the
  interpreter: for an enumeration mixed with \<open>str\<close> it is the member's value up to
  Python 3.10 and the class name, a dot and the member's name from Python 3.11 on. The
  engine takes the formatting as its first argument, \<open>fmt\<close>; these are the two it can be.
\<close>

fun CaseStatus_value :: "CaseStatus \<Rightarrow> string" where
  "CaseStatus_value DRAFT = ''DRAFT''"
| "CaseStatus_value READY_TO_SEND = ''READY_TO_SEND''"
| "CaseStatus_value SENT_TO_CLIENT = ''SENT_TO_CLIENT''"
| "CaseStatus_value CLIENT_SIGNED = ''CLIENT_SIGNED''"
| "CaseStatus_value CLIENT_OPTED_OUT = ''CLIENT_OPTED_OUT''"
| "CaseStatus_value RECEIVED_PAPERWORK = ''RECEIVED_PAPERWORK''"
| "CaseStatus_value SUBMITTED_TO_PROVIDER = ''SUBMITTED_TO_PROVIDER''"
| "CaseStatus_value PROVIDER_UPLIFTED = ''PROVIDER_UPLIFTED''"
| "CaseStatus_value IO_CLOSED_NEW_FEE = ''IO_CLOSED_NEW_FEE''"
| "CaseStatus_value COMPLETED = ''COMPLETED''"

definition CaseStatus_str :: "CaseStatus \<Rightarrow> string" where
  "CaseStatus_str s = ''CaseStatus.'' @ CaseStatus_value s"

text \<open>The task title; the dash is U+2014, three bytes in UTF-8.\<close>

definition next_step_title :: "(CaseStatus \<Rightarrow> string) \<Rightarrow> CaseStatus \<Rightarrow> string" where
  "next_step_title fmt new_status =
    fmt new_status @ '' '' @ [CHR 0xE2, CHR 0x80, CHR 0x94] @ '' next step''"

text \<open>
  \<open>apply_transition\<close>. A call that returns gives \<open>Inr\<close> of the returned boolean with
  the case and the session as the call leaves them. A call that raises gives \<open>Inl\<close> of
  the exception with the case and the session as they are at the raise: the status is
  assigned before the SLA line computes the due date, so a raise there leaves the new
  status on the caller's object and nothing else. \<open>now\<close> is the clock reading of the SLA
  line and \<open>now_task\<close> the later one inside \<open>create_task_for_case\<close>.
\<close>

definition apply_transition ::
  "(CaseStatus \<Rightarrow> string) \<Rightarrow> Session \<Rightarrow> Case \<Rightarrow> User option \<Rightarrow> string \<Rightarrow> string \<Rightarrow>
    datetime \<Rightarrow> datetime \<Rightarrow> error \<times> Case \<times> Session + bool \<times> Case \<times> Session" where
  "apply_transition fmt session c user action_label notes now now_task =
    (case TRANSITIONS (status c, action_label) of
       None \<Rightarrow> Inr (False, c, session)
     | Some (new_status, audit_action) \<Rightarrow>
         let c1 = c\<lparr>status := new_status\<rparr>
         in (case datetime_plus_days now (sla_days c1) of
               Inl e \<Rightarrow> Inl (e, c1, session)
             | Inr due \<Rightarrow>
                 let c2 = c1\<lparr>due_at := Some due\<rparr>;
                     c3 = assign_next_team session c2
                 in (case create_task_for_case session c3 (next_step_title fmt new_status) 5
                            now_task of
                       Inl e \<Rightarrow> Inl (e, c3, session)
                     | Inr (c4, s4) \<Rightarrow>
                         let (c5, s5) = log_action s4 c4 user audit_action notes None
                         in Inr (True, c5, s5))))"

section \<open>Bootstrap, case creation and the case detail page\<close>

text \<open>\<open>DEFAULT_TEAMS\<close> and \<open>bootstrap_db\<close>: the teams are seeded, in order, when the
  table is empty; the table numbers them from 1.\<close>

definition DEFAULT_TEAMS :: "string list" where
  "DEFAULT_TEAMS =
    [''Data'', ''Admin Solution'', ''Ops Support'', ''Tech Excellence Center'',
     ''Submission & Novation'', ''Support Hub'', ''Post'', ''IS'']"

definition bootstrap_db :: "Session \<Rightarrow> Session" where
  "bootstrap_db session =
    (if length (db_teams session) = 0
     then session\<lparr>db_teams :=
            map (\<lambda>(i, t). \<lparr>team_id = Suc i, team_name = t\<rparr>) (enumerate 0 DEFAULT_TEAMS)\<rparr>
     else session)"

text \<open>The primary key an insert receives: one more than the largest key in the table.\<close>

definition fresh_id :: "nat list \<Rightarrow> nat" where
  "fresh_id ids = Suc (fold max ids 0)"

text \<open>
  The body of the \<open>Create Case\<close> button of \<open>page_cases\<close>, in the order of the source:
  look the provider up by name and insert it when the query finds none, the same for the
  client, build the case in \<open>DRAFT\<close>, run \<open>assign_next_team\<close>, add and commit the case,
  then log \<open>created\<close> and commit. \<open>user\<close> is what \<open>current_user\<close> returns and \<open>now\<close> the
  clock reading of the \<open>created_at\<close> default. The text inputs arrive as they were typed:
  the source tests none of them before the first insert.
\<close>

definition create_case ::
  "Session \<Rightarrow> User option \<Rightarrow> string \<Rightarrow> string \<Rightarrow> string \<Rightarrow> SignatureType \<Rightarrow> int \<Rightarrow> datetime
    \<Rightarrow> Case \<times> Session" where
  "create_case s user ttl cname pname sig sla now =
    (let (provider, s1) =
           (case find (\<lambda>p. provider_name p = pname) (db_providers s) of
              Some p \<Rightarrow> (p, s)
            | None \<Rightarrow>
                let p = \<lparr>provider_id = fresh_id (map provider_id (db_providers s)),
                         provider_name = pname\<rparr>
                in (p, s\<lparr>db_providers := db_providers s @ [p]\<rparr>));
         (client, s2) =
           (case find (\<lambda>k. client_name k = cname) (db_clients s1) of
              Some k \<Rightarrow> (k, s1)
            | None \<Rightarrow>
                let k = \<lparr>client_id = fresh_id (map client_id (db_clients s1)),
                         client_name = cname, client_provider_id = provider_id provider\<rparr>
                in (k, s1\<lparr>db_clients := db_clients s1 @ [k]\<rparr>));
         c0 = \<lparr>case_id = None, title = ttl, case_client_id = client_id client,
                case_provider_id = provider_id provider, signature_type = sig,
                status = DRAFT, assigned_team = None, sla_days = sla,
                created_at = None, due_at = None, tasks = [], logs = []\<rparr>;
         c1 = assign_next_team s2 c0;
         c2 = c1\<lparr>case_id := Some (fresh_id (List.map_filter case_id (db_cases s2))),
                 created_at := Some now\<rparr>;
         s3 = s2\<lparr>db_cases := db_cases s2 @ [c2]\<rparr>
     in log_action s3 c2 user ''created'' ''Case created'' None)"

text \<open>
  The action labels \<open>page_case_detail\<close> offers for a status: the comprehension over
  \<open>TRANSITIONS.items()\<close>.
\<close>

definition available :: "CaseStatus \<Rightarrow> string list" where
  "available s = map (\<lambda>((st_from, label), _). label)
                   (filter (\<lambda>((st_from, label), _). st_from = s) TRANSITIONS_items)"

text \<open>
  A run of \<open>apply_transition\<close> calls on one case, each on the case and session the call
  before left. A step is the acting user, the action label, the notes and the two clock
  readings of the call; the run records the returned boolean and the status after the
  call. A call that raises ends the run with its exception.
\<close>

type_synonym step = "User option \<times> string \<times> string \<times> datetime \<times> datetime"

fun apply_labels ::
  "(CaseStatus \<Rightarrow> string) \<Rightarrow> Session \<Rightarrow> Case \<Rightarrow> step list \<Rightarrow>
    error \<times> Case \<times> Session + (bool \<times> CaseStatus) list \<times> Case \<times> Session" where
  "apply_labels fmt session c [] = Inr ([], c, session)"
| "apply_labels fmt session c ((user, action_label, notes, now, now_task) # rest) =
    (case apply_transition fmt session c user action_label notes now now_task of
       Inl e \<Rightarrow> Inl e
     | Inr (ok, c1, s1) \<Rightarrow>
         (case apply_labels fmt s1 c1 rest of
            Inl e \<Rightarrow> Inl e
          | Inr (oks, c2, s2) \<Rightarrow> Inr ((ok, status c1) # oks, c2, s2)))"

text \<open>The clock readings of a step keep the due dates of a case with the given SLA, and
  of its follow-up task, within the range of a datetime.\<close>

definition step_in_range :: "int \<Rightarrow> step \<Rightarrow> bool" where
  "step_in_range sla = (\<lambda>(user, action_label, notes, now, now_task).
     days_in_range now sla \<and> days_in_range now_task 5)"

text \<open>The number of transitions between \<open>DRAFT\<close> and a status.\<close>

fun workflow_rank :: "CaseStatus \<Rightarrow> nat" where
  "workflow_rank DRAFT = 0"
| "workflow_rank READY_TO_SEND = 1"
| "workflow_rank SENT_TO_CLIENT = 2"
| "workflow_rank CLIENT_SIGNED = 3"
| "workflow_rank CLIENT_OPTED_OUT = 3"
| "workflow_rank RECEIVED_PAPERWORK = 4"
| "workflow_rank SUBMITTED_TO_PROVIDER = 5"
| "workflow_rank PROVIDER_UPLIFTED = 6"
| "workflow_rank IO_CLOSED_NEW_FEE = 7"
| "workflow_rank COMPLETED = 8"

text \<open>
  The statuses a run of labels goes through according to the table alone: the results
  of the calls and the status after the last one.
\<close>

fun follow_labels :: "CaseStatus \<Rightarrow> string list \<Rightarrow> (bool \<times> CaseStatus) list \<times> CaseStatus" where
  "follow_labels s [] = ([], s)"
| "follow_labels s (l # ls) =
    (case TRANSITIONS (s, l) of
       None \<Rightarrow> (case follow_labels s ls of (rs, e) \<Rightarrow> ((False, s) # rs, e))
     | Some (t, a) \<Rightarrow> (case follow_labels t ls of (rs, e) \<Rightarrow> ((True, t) # rs, e)))"

definition step_label :: "step \<Rightarrow> string" where
  "step_label = (\<lambda>(user, action_label, notes, now, now_task). action_label)"

subsection \<open>Concrete inputs\<close>

definition empty_session :: Session where
  "empty_session = \<lparr>db_teams = [], db_providers = [], db_clients = [], db_cases = [],
                     db_tasks = [], db_audit_logs = []\<rparr>"

text \<open>A stored case in a given status, with the default SLA of ten days.\<close>

definition ex_case :: "CaseStatus \<Rightarrow> Case" where
  "ex_case s = \<lparr>case_id = Some 1, title = ''Fee uplift'', case_client_id = 1,
     case_provider_id = 1, signature_type = DOCUSIGN, status = s, assigned_team = None,
     sla_days = 10, created_at = Some 0, due_at = None, tasks = [], logs = []\<rparr>"

text \<open>The first microsecond of 2025, day 739251 after 0001-01-01.\<close>

definition t_2025 :: datetime where
  "t_2025 = 63871286400000000"

text \<open>A case created on the bootstrapped store with a given SLA at a given time, and the
  eight calls of the legal path, one a day from the day after, by the system and by a
  signed-in user.\<close>

definition ex_created :: "int \<Rightarrow> datetime \<Rightarrow> Case \<times> Session" where
  "ex_created sla t0 = create_case (bootstrap_db empty_session) None ''Fee uplift''
                  ''Ann Client'' ''Acme Provider'' DOCUSIGN sla t0"

definition ex_steps :: "datetime \<Rightarrow> step list" where
  "ex_steps t0 =
    [(None, ''Mark Ready to Send'', '''', t0 + timedelta 1, t0 + timedelta 1),
     (None, ''Send to Client'', ''posted'', t0 + timedelta 2, t0 + timedelta 2),
     (Some \<lparr>user_id = 7, user_name = ''Bo''\<rparr>, ''Mark Client Signed'', '''',
        t0 + timedelta 3, t0 + timedelta 3),
     (None, ''Mark Docs Received'', '''', t0 + timedelta 4, t0 + timedelta 4),
     (None, ''Submit to Provider'', '''', t0 + timedelta 5, t0 + timedelta 5),
     (None, ''Provider Uplifted'', '''', t0 + timedelta 6, t0 + timedelta 6),
     (None, ''Close Fee in IO & Create New'', '''', t0 + timedelta 7, t0 + timedelta 7),
     (None, ''Complete Case'', ''done'', t0 + timedelta 8, t0 + timedelta 8)]"

lemmas engine_defs =
  apply_transition_def assign_next_team_def create_task_for_case_def log_action_def
  NEXT_TEAM_HINT_get_def NEXT_TEAM_HINT_def TRANSITIONS_def TRANSITIONS_items_def
  datetime_plus_days_def days_in_range_def datetime_max_def timedelta_def

lemmas fixture_defs = bootstrap_db_def empty_session_def DEFAULT_TEAMS_def ex_case_def

section \<open>Facts about the tables and the helpers\<close>

lemma NEXT_TEAM_HINT_get_simps:
  "NEXT_TEAM_HINT_get DRAFT = Some ''Data''"
  "NEXT_TEAM_HINT_get READY_TO_SEND = Some ''Admin Solution''"
  "NEXT_TEAM_HINT_get SENT_TO_CLIENT = Some ''Ops Support''"
  "NEXT_TEAM_HINT_get CLIENT_SIGNED = Some ''Submission & Novation''"
  "NEXT_TEAM_HINT_get CLIENT_OPTED_OUT = Some ''Support Hub''"
  "NEXT_TEAM_HINT_get RECEIVED_PAPERWORK = Some ''Submission & Novation''"
  "NEXT_TEAM_HINT_get SUBMITTED_TO_PROVIDER = Some ''Tech Excellence Center''"
  "NEXT_TEAM_HINT_get PROVIDER_UPLIFTED = Some ''IS''"
  "NEXT_TEAM_HINT_get IO_CLOSED_NEW_FEE = Some ''Admin Solution''"
  "NEXT_TEAM_HINT_get COMPLETED = None"
  by (simp_all add: NEXT_TEAM_HINT_get_def NEXT_TEAM_HINT_def)

lemma NEXT_TEAM_HINT_get_nonempty: "NEXT_TEAM_HINT_get s \<noteq> Some []"
  by (cases s) (simp_all add: NEXT_TEAM_HINT_get_simps)

lemma NEXT_TEAM_HINT_get_None_iff: "NEXT_TEAM_HINT_get s = None \<longleftrightarrow> s = COMPLETED"
  by (cases s) (simp_all add: NEXT_TEAM_HINT_get_simps)

text \<open>Every hint of the table is a non-empty string, so the routing step is a lookup
  of the hinted name.\<close>

lemma assign_next_team_team:
  "assigned_team (assign_next_team session c) =
    (case NEXT_TEAM_HINT_get (status c) of
       None \<Rightarrow> None
     | Some hint \<Rightarrow> find (\<lambda>t. team_name t = hint) (db_teams session))"
  using NEXT_TEAM_HINT_get_nonempty [of "status c"]
  by (simp add: assign_next_team_def split: option.splits)

lemma assign_next_team_other:
  "status (assign_next_team session c) = status c"
  "due_at (assign_next_team session c) = due_at c"
  "tasks (assign_next_team session c) = tasks c"
  "logs (assign_next_team session c) = logs c"
  "sla_days (assign_next_team session c) = sla_days c"
  "case_id (assign_next_team session c) = case_id c"
  "created_at (assign_next_team session c) = created_at c"
  by (simp_all add: assign_next_team_def split: option.splits)

text \<open>A call whose clock readings keep both due dates in range returns, and returns
  \<open>True\<close> exactly when the key is in the table.\<close>

lemma apply_transition_in_range:
  assumes "days_in_range now (sla_days c)" and "days_in_range now_task 5"
  shows "\<exists>c' s'. apply_transition fmt session c user action_label notes now now_task
                   = Inr (TRANSITIONS (status c, action_label) \<noteq> None, c', s') \<and>
                 status c' = (case TRANSITIONS (status c, action_label) of
                                None \<Rightarrow> status c | Some (t, a) \<Rightarrow> t) \<and>
                 sla_days c' = sla_days c"
  using assms
  by (auto simp: apply_transition_def datetime_plus_days_def create_task_for_case_def
        log_action_def assign_next_team_other Let_def split: option.splits)

text \<open>The case and the session a successful call leaves, field by field.\<close>

lemma apply_transition_legal:
  assumes "apply_transition fmt session c user action_label notes now now_task
             = Inr (True, c', s')"
  obtains new_status audit_action where
    "TRANSITIONS (status c, action_label) = Some (new_status, audit_action)"
    "status c' = new_status"
    "due_at c' = Some (now + timedelta (sla_days c))"
    "assigned_team c' =
      (case NEXT_TEAM_HINT_get new_status of
         None \<Rightarrow> None
       | Some hint \<Rightarrow> find (\<lambda>t. team_name t = hint) (db_teams session))"
    "tasks c' = tasks c @
      (case assigned_team c' of
         None \<Rightarrow> []
       | Some team \<Rightarrow> [\<lparr>task_case_id = case_id c, task_team = team,
                         task_title = next_step_title fmt new_status, task_status = OPEN,
                         task_due_at = now_task + timedelta 5\<rparr>])"
    "db_tasks s' = db_tasks session @ drop (length (tasks c)) (tasks c')"
    "logs c' = logs c @
      [\<lparr>auditlog_case_id = case_id c,
        auditlog_user_id = (case user of None \<Rightarrow> None | Some u \<Rightarrow> Some (user_id u)),
        auditlog_action = audit_action, auditlog_notes = notes, auditlog_meta = []\<rparr>]"
    "db_audit_logs s' = db_audit_logs session @ drop (length (logs c)) (logs c')"
    "db_teams s' = db_teams session"
    "sla_days c' = sla_days c"
    "days_in_range now (sla_days c)"
proof -
  from assms obtain new_status audit_action
    where key: "TRANSITIONS (status c, action_label) = Some (new_status, audit_action)"
    by (auto simp: apply_transition_def split: option.splits)
  have range: "days_in_range now (sla_days c)"
    using assms key
    by (auto simp: apply_transition_def datetime_plus_days_def Let_def split: if_splits)
  let ?c3 = "assign_next_team session
      (c\<lparr>status := new_status, due_at := Some (now + timedelta (sla_days c))\<rparr>)"
  let ?ttl = "next_step_title fmt new_status"
  have team: "assigned_team ?c3 = (case NEXT_TEAM_HINT_get new_status of
         None \<Rightarrow> None
       | Some hint \<Rightarrow> find (\<lambda>t. team_name t = hint) (db_teams session))"
    by (simp add: assign_next_team_team)
  show thesis
  proof (cases "assigned_team ?c3")
    case None
    then have ct: "create_task_for_case session ?c3 ?ttl 5 now_task = Inr (?c3, session)"
      by (simp add: create_task_for_case_def)
    from assms key range ct
    have "c' = fst (log_action session ?c3 user audit_action notes None)"
      "s' = snd (log_action session ?c3 user audit_action notes None)"
      by (simp_all add: apply_transition_def datetime_plus_days_def Let_def case_prod_beta)
    with None team key range show thesis
      by (intro that [of new_status audit_action])
         (simp_all add: log_action_def Let_def assign_next_team_other)
  next
    case (Some tm)
    let ?task = "\<lparr>task_case_id = case_id c, task_team = tm,
                         task_title = ?ttl, task_status = OPEN,
                         task_due_at = now_task + timedelta 5\<rparr>"
    have task_range: "days_in_range now_task 5"
    proof (rule ccontr)
      assume "\<not> days_in_range now_task 5"
      with Some have "create_task_for_case session ?c3 ?ttl 5 now_task = Inl OverflowError"
        by (simp add: create_task_for_case_def datetime_plus_days_def)
      with assms key range show False
        by (simp add: apply_transition_def datetime_plus_days_def Let_def)
    qed
    with Some have ct: "create_task_for_case session ?c3 ?ttl 5 now_task
        = Inr (?c3\<lparr>tasks := tasks c @ [?task]\<rparr>,
               session\<lparr>db_tasks := db_tasks session @ [?task]\<rparr>)"
      by (simp add: create_task_for_case_def datetime_plus_days_def Let_def
            assign_next_team_other)
    from assms key range ct
    have "c' = fst (log_action (session\<lparr>db_tasks := db_tasks session @ [?task]\<rparr>)
           (?c3\<lparr>tasks := tasks c @ [?task]\<rparr>) user audit_action notes None)"
      "s' = snd (log_action (session\<lparr>db_tasks := db_tasks session @ [?task]\<rparr>)
           (?c3\<lparr>tasks := tasks c @ [?task]\<rparr>) user audit_action notes None)"
      by (simp_all add: apply_transition_def datetime_plus_days_def Let_def case_prod_beta)
    with Some team key range show thesis
      by (intro that [of new_status audit_action])
         (simp_all add: log_action_def Let_def assign_next_team_other)
  qed
qed

section \<open>Illegal transitions\<close>

text \<open>
  C1. When \<open>(case.status, action_label)\<close> is not a key of the transition table,
  \<open>apply_transition\<close> returns \<open>False\<close> and hands back the very same case and session:
  status, due date, assigned team, task list and audit list are unchanged, and no task
  or audit entry was added to the session.
\<close>

theorem apply_transition_illegal_unchanged:
  assumes "TRANSITIONS (status c, action_label) = None"
  shows "apply_transition fmt session c user action_label notes now now_task
           = Inr (False, c, session)"
  using assms by (simp add: apply_transition_def)

text \<open>A case in \<open>DRAFT\<close> asked to \<open>Complete Case\<close>.\<close>

theorem apply_transition_illegal_unchanged_witness:
  "TRANSITIONS (status (ex_case DRAFT), ''Complete Case'') = None \<and>
   apply_transition CaseStatus_str (bootstrap_db empty_session) (ex_case DRAFT) None
       ''Complete Case'' '''' 1 2
     = Inr (False, ex_case DRAFT, bootstrap_db empty_session)"
proof -
  have h: "TRANSITIONS (status (ex_case DRAFT), ''Complete Case'') = None"
    by (simp add: TRANSITIONS_def TRANSITIONS_items_def ex_case_def)
  show ?thesis
    using h apply_transition_illegal_unchanged [OF h] by simp
qed

section \<open>Effects of a successful transition\<close>

text \<open>
  C2, as the code has it. A successful \<open>apply_transition\<close> appends exactly one audit
  entry to the case's log and to the session. It appends exactly one open task, owned by
  the team the routing step assigned, when that step assigned a team, and no task when it
  assigned none; a case that reached \<open>COMPLETED\<close> has no team, so the last transition of
  the workflow creates no task.
\<close>

theorem apply_transition_creates:
  assumes "apply_transition fmt session c user action_label notes now now_task
             = Inr (True, c', s')"
  shows "(\<exists>entry. logs c' = logs c @ [entry] \<and>
                  db_audit_logs s' = db_audit_logs session @ [entry]) \<and>
         (case assigned_team c' of
            None \<Rightarrow> tasks c' = tasks c \<and> db_tasks s' = db_tasks session
          | Some team \<Rightarrow>
              (\<exists>task. tasks c' = tasks c @ [task] \<and> db_tasks s' = db_tasks session @ [task] \<and>
                      task_team task = team \<and> task_status task = OPEN)) \<and>
         (status c' = COMPLETED \<longrightarrow> assigned_team c' = None)"
proof -
  from assms obtain new_status audit_action where
    st: "status c' = new_status" and
    tm: "assigned_team c' =
      (case NEXT_TEAM_HINT_get new_status of
         None \<Rightarrow> None
       | Some hint \<Rightarrow> find (\<lambda>t. team_name t = hint) (db_teams session))" and
    ts: "tasks c' = tasks c @
      (case assigned_team c' of
         None \<Rightarrow> []
       | Some team \<Rightarrow> [\<lparr>task_case_id = case_id c, task_team = team,
                         task_title = next_step_title fmt new_status, task_status = OPEN,
                         task_due_at = now_task + timedelta 5\<rparr>])" and
    dts: "db_tasks s' = db_tasks session @ drop (length (tasks c)) (tasks c')" and
    ls: "logs c' = logs c @
      [\<lparr>auditlog_case_id = case_id c,
        auditlog_user_id = (case user of None \<Rightarrow> None | Some u \<Rightarrow> Some (user_id u)),
        auditlog_action = audit_action, auditlog_notes = notes, auditlog_meta = []\<rparr>]" and
    dls: "db_audit_logs s' = db_audit_logs session @ drop (length (logs c)) (logs c')"
    by (rule apply_transition_legal)
  have audit: "\<exists>entry. logs c' = logs c @ [entry] \<and>
                  db_audit_logs s' = db_audit_logs session @ [entry]"
    using ls dls by simp
  have task: "case assigned_team c' of
            None \<Rightarrow> tasks c' = tasks c \<and> db_tasks s' = db_tasks session
          | Some team \<Rightarrow>
              (\<exists>task. tasks c' = tasks c @ [task] \<and> db_tasks s' = db_tasks session @ [task] \<and>
                      task_team task = team \<and> task_status task = OPEN)"
  proof (cases "assigned_team c'")
    case None
    with ts dts show ?thesis by simp
  next
    case (Some team)
    with ts dts show ?thesis by simp
  qed
  have final: "status c' = COMPLETED \<longrightarrow> assigned_team c' = None"
    using st tm by (auto simp: NEXT_TEAM_HINT_get_simps)
  from audit task final show ?thesis by blast
qed

text \<open>A case in \<open>DRAFT\<close> marked ready with the default teams: one entry, one task.\<close>

theorem apply_transition_creates_witness:
  "\<exists>c' s'. apply_transition CaseStatus_value (bootstrap_db empty_session) (ex_case DRAFT) None
              ''Mark Ready to Send'' ''ok'' 1 2 = Inr (True, c', s') \<and>
           length (logs c') = 1 \<and>
           map task_team (tasks c') = [\<lparr>team_id = 2, team_name = ''Admin Solution''\<rparr>]"
proof -
  have "\<exists>c' s'. apply_transition CaseStatus_value (bootstrap_db empty_session) (ex_case DRAFT)
              None ''Mark Ready to Send'' ''ok'' 1 2 = Inr (True, c', s') \<and>
           assigned_team c' = Some \<lparr>team_id = 2, team_name = ''Admin Solution''\<rparr>"
    by (simp add: engine_defs fixture_defs Let_def)
  then obtain c' s' where
    h: "apply_transition CaseStatus_value (bootstrap_db empty_session) (ex_case DRAFT)
              None ''Mark Ready to Send'' ''ok'' 1 2 = Inr (True, c', s')" and
    team: "assigned_team c' = Some \<lparr>team_id = 2, team_name = ''Admin Solution''\<rparr>"
    by blast
  have e: "logs (ex_case DRAFT) = []" "tasks (ex_case DRAFT) = []"
    by (simp_all add: ex_case_def)
  from apply_transition_creates [OF h] team e
  have "length (logs c') = 1 \<and>
        map task_team (tasks c') = [\<lparr>team_id = 2, team_name = ''Admin Solution''\<rparr>]"
    by auto
  with h show ?thesis by simp
qed

text \<open>
  The claim as written fails at the last transition of the workflow: \<open>Complete Case\<close>
  succeeds, logs its entry and creates no task.
\<close>

theorem complete_case_creates_no_task:
  "\<exists>c' s'. apply_transition CaseStatus_value (bootstrap_db empty_session)
              (ex_case IO_CLOSED_NEW_FEE) None ''Complete Case'' '''' 1 2
             = Inr (True, c', s') \<and>
           status c' = COMPLETED \<and>
           tasks c' = tasks (ex_case IO_CLOSED_NEW_FEE) \<and>
           db_tasks s' = db_tasks (bootstrap_db empty_session) \<and>
           length (logs c') = length (logs (ex_case IO_CLOSED_NEW_FEE)) + 1"
  by (simp add: engine_defs fixture_defs Let_def)

text \<open>
  C3, as the code has it. After a successful \<open>apply_transition\<close> the assigned team is
  the first team of the table whose name is the routing hint of the new status, and none
  when there is no such team or no hint. \<open>COMPLETED\<close> is the only status without a hint:
  a transition into it leaves the case with no team. The other terminal status,
  \<open>CLIENT_OPTED_OUT\<close>, has the hint \<open>Support Hub\<close>, and a transition into it assigns
  that team.
\<close>

theorem apply_transition_routing:
  assumes "apply_transition fmt session c user action_label notes now now_task
             = Inr (True, c', s')"
  shows "assigned_team c' =
           (case NEXT_TEAM_HINT_get (status c') of
              None \<Rightarrow> None
            | Some hint \<Rightarrow> find (\<lambda>t. team_name t = hint) (db_teams session)) \<and>
         (NEXT_TEAM_HINT_get (status c') = None \<longleftrightarrow> status c' = COMPLETED) \<and>
         (status c' = COMPLETED \<longrightarrow> assigned_team c' = None) \<and>
         (status c' = CLIENT_OPTED_OUT \<longrightarrow>
            assigned_team c' = find (\<lambda>t. team_name t = ''Support Hub'') (db_teams session))"
proof -
  from assms obtain new_status audit_action where
    st: "status c' = new_status" and
    tm: "assigned_team c' =
      (case NEXT_TEAM_HINT_get new_status of
         None \<Rightarrow> None
       | Some hint \<Rightarrow> find (\<lambda>t. team_name t = hint) (db_teams session))"
    by (rule apply_transition_legal)
  from st tm show ?thesis
    by (auto simp: NEXT_TEAM_HINT_get_simps NEXT_TEAM_HINT_get_None_iff)
qed

text \<open>A case owned by \<open>Admin Solution\<close> is completed: the assignment is cleared.\<close>

theorem apply_transition_routing_witness:
  "\<exists>c' s'. apply_transition CaseStatus_value (bootstrap_db empty_session)
              ((ex_case IO_CLOSED_NEW_FEE)
                 \<lparr>assigned_team := Some \<lparr>team_id = 2, team_name = ''Admin Solution''\<rparr>\<rparr>)
              None ''Complete Case'' '''' 1 2 = Inr (True, c', s') \<and>
           assigned_team c' = None"
proof -
  have "\<exists>c' s'. apply_transition CaseStatus_value (bootstrap_db empty_session)
              ((ex_case IO_CLOSED_NEW_FEE)
                 \<lparr>assigned_team := Some \<lparr>team_id = 2, team_name = ''Admin Solution''\<rparr>\<rparr>)
              None ''Complete Case'' '''' 1 2 = Inr (True, c', s') \<and>
           status c' = COMPLETED"
    by (simp add: engine_defs fixture_defs Let_def)
  then obtain c' s' where
    h: "apply_transition CaseStatus_value (bootstrap_db empty_session)
              ((ex_case IO_CLOSED_NEW_FEE)
                 \<lparr>assigned_team := Some \<lparr>team_id = 2, team_name = ''Admin Solution''\<rparr>\<rparr>)
              None ''Complete Case'' '''' 1 2 = Inr (True, c', s')" and
    st: "status c' = COMPLETED"
    by blast
  from apply_transition_routing [OF h] st have "assigned_team c' = None"
    by blast
  with h show ?thesis by simp
qed

text \<open>
  The claim as written fails for the other terminal status: with the default teams, a
  case that is opted out is assigned to \<open>Support Hub\<close>.
\<close>

theorem opted_out_assigns_support_hub:
  "\<exists>c' s'. apply_transition CaseStatus_value (bootstrap_db empty_session)
              (ex_case SENT_TO_CLIENT) None ''Mark Client Opted Out'' '''' 1 2
             = Inr (True, c', s') \<and>
           status c' = CLIENT_OPTED_OUT \<and>
           assigned_team c' = Some \<lparr>team_id = 6, team_name = ''Support Hub''\<rparr>"
  by (simp add: engine_defs fixture_defs Let_def)

text \<open>
  C4. After a successful \<open>apply_transition\<close> whose SLA line read the clock at \<open>now\<close>,
  the due date is \<open>now\<close> plus \<open>sla_days\<close> days, whatever the creation time and the
  due date before the call were. For a case with an SLA of ten days created at \<open>T\<close>, a
  transition one day later gives \<open>T\<close> plus one plus ten days, which is not \<open>T\<close> plus
  ten days.
\<close>

theorem apply_transition_due_at:
  assumes "apply_transition fmt session c user action_label notes now now_task
             = Inr (True, c', s')"
  shows "due_at c' = Some (now + timedelta (sla_days c)) \<and>
         (\<forall>T. sla_days c = 10 \<and> created_at c = Some T \<and> now = T + timedelta 1 \<longrightarrow>
              due_at c' = Some (T + timedelta 1 + timedelta 10) \<and>
              due_at c' \<noteq> Some (T + timedelta 10))"
proof -
  from assms have due: "due_at c' = Some (now + timedelta (sla_days c))"
    by (rule apply_transition_legal)
  then show ?thesis
    by (simp add: timedelta_def)
qed

text \<open>
  A case created at time 0 with an SLA of ten days, whose due date stood at day ten, is
  marked ready at day one: the new due date is day eleven.
\<close>

theorem apply_transition_due_at_witness:
  "sla_days ((ex_case DRAFT)\<lparr>due_at := Some (timedelta 10)\<rparr>) = 10 \<and>
   created_at ((ex_case DRAFT)\<lparr>due_at := Some (timedelta 10)\<rparr>) = Some 0 \<and>
   (\<exists>c' s'. apply_transition CaseStatus_value (bootstrap_db empty_session)
               ((ex_case DRAFT)\<lparr>due_at := Some (timedelta 10)\<rparr>) None
               ''Mark Ready to Send'' '''' (0 + timedelta 1) (timedelta 1 + 7)
              = Inr (True, c', s') \<and>
            due_at c' = Some (timedelta 11))"
proof -
  define c where "c = (ex_case DRAFT)\<lparr>due_at := Some (timedelta 10)\<rparr>"
  have c: "sla_days c = 10" "created_at c = Some 0" "status c = DRAFT"
    by (simp_all add: c_def ex_case_def)
  have r: "days_in_range (0 + timedelta 1) (sla_days c)" "days_in_range (timedelta 1 + 7) 5"
    by (simp_all add: c days_in_range_def timedelta_def datetime_max_def)
  have k: "TRANSITIONS (status c, ''Mark Ready to Send'') \<noteq> None"
    by (simp add: c TRANSITIONS_def TRANSITIONS_items_def)
  from apply_transition_in_range [OF r, of CaseStatus_value "bootstrap_db empty_session"
      None "''Mark Ready to Send''" "''''"] k
  obtain c' s' where
    h: "apply_transition CaseStatus_value (bootstrap_db empty_session) c None
               ''Mark Ready to Send'' '''' (0 + timedelta 1) (timedelta 1 + 7)
              = Inr (True, c', s')"
    by auto
  from apply_transition_due_at [OF h] c
  have "due_at c' = Some (0 + timedelta 1 + timedelta 10)"
    by blast
  then have "due_at c' = Some (timedelta 11)"
    by (simp add: timedelta_def)
  with h c show ?thesis
    unfolding c_def by blast
qed

section \<open>A hinted team that is not in the table\<close>

text \<open>
  C10. When the routing hint of the new status names a team and no row of the team table
  has that name, \<open>assign_next_team\<close> leaves the case with no assigned team, so
  \<open>create_task_for_case\<close> returns without creating a task. The transition is
  otherwise successful: when the clock and the SLA keep the due date in the range of a
  datetime, so that the SLA line does not raise, the call returns \<open>True\<close> and the
  case's task list and the session's tasks are as before.
\<close>

theorem missing_team_no_task:
  assumes "TRANSITIONS (status c, action_label) = Some (new_status, audit_action)"
    and "NEXT_TEAM_HINT_get new_status = Some hint"
    and "\<forall>t \<in> set (db_teams session). team_name t \<noteq> hint"
    and "days_in_range now (sla_days c)"
  shows "assigned_team (assign_next_team session (c\<lparr>status := new_status\<rparr>)) = None \<and>
         create_task_for_case session (assign_next_team session (c\<lparr>status := new_status\<rparr>))
             ttl due_days now_task
           = Inr (assign_next_team session (c\<lparr>status := new_status\<rparr>), session) \<and>
         (\<exists>c' s'. apply_transition fmt session c user action_label notes now now_task
                     = Inr (True, c', s') \<and>
                  status c' = new_status \<and> assigned_team c' = None \<and>
                  tasks c' = tasks c \<and> db_tasks s' = db_tasks session)"
proof -
  have none: "find (\<lambda>t. team_name t = hint) (db_teams session) = None"
    using assms(3) by (simp add: find_None_iff)
  have a: "assigned_team (assign_next_team session (c\<lparr>status := new_status\<rparr>)) = None"
    using assms(2) none by (simp add: assign_next_team_team)
  then have b: "create_task_for_case session
             (assign_next_team session (c\<lparr>status := new_status\<rparr>)) ttl due_days now_task
           = Inr (assign_next_team session (c\<lparr>status := new_status\<rparr>), session)"
    by (simp add: create_task_for_case_def)
  let ?c3 = "assign_next_team session
      (c\<lparr>status := new_status, due_at := Some (now + timedelta (sla_days c))\<rparr>)"
  have team: "assigned_team ?c3 = None"
    using assms(2) none by (simp add: assign_next_team_team)
  then have ct: "create_task_for_case session ?c3 (next_step_title fmt new_status) 5 now_task
                   = Inr (?c3, session)"
    by (simp add: create_task_for_case_def)
  have call: "apply_transition fmt session c user action_label notes now now_task
          = Inr (True, fst (log_action session ?c3 user audit_action notes None),
                       snd (log_action session ?c3 user audit_action notes None))"
    using assms(1) assms(4) ct
    by (simp add: apply_transition_def datetime_plus_days_def Let_def case_prod_beta)
  have props:
    "status (fst (log_action session ?c3 user audit_action notes None)) = new_status"
    "assigned_team (fst (log_action session ?c3 user audit_action notes None)) = None"
    "tasks (fst (log_action session ?c3 user audit_action notes None)) = tasks c"
    "db_tasks (snd (log_action session ?c3 user audit_action notes None)) = db_tasks session"
    using team by (simp_all add: log_action_def Let_def assign_next_team_other)
  from call props have c: "\<exists>c' s'. apply_transition fmt session c user action_label notes
                     now now_task = Inr (True, c', s') \<and>
                  status c' = new_status \<and> assigned_team c' = None \<and>
                  tasks c' = tasks c \<and> db_tasks s' = db_tasks session"
    by blast
  from a b c show ?thesis by blast
qed

text \<open>
  A team table that holds \<open>Data\<close> alone: marking a draft ready hints \<open>Admin Solution\<close>,
  which is missing.
\<close>

theorem missing_team_no_task_witness:
  "TRANSITIONS (status (ex_case DRAFT), ''Mark Ready to Send'')
     = Some (READY_TO_SEND, ''ready_to_send'') \<and>
   NEXT_TEAM_HINT_get READY_TO_SEND = Some ''Admin Solution'' \<and>
   list_all (\<lambda>t. team_name t \<noteq> ''Admin Solution'')
     (db_teams (empty_session\<lparr>db_teams := [\<lparr>team_id = 1, team_name = ''Data''\<rparr>]\<rparr>)) \<and>
   days_in_range 1 (sla_days (ex_case DRAFT)) \<and>
   (\<exists>c' s'. apply_transition CaseStatus_value
               (empty_session\<lparr>db_teams := [\<lparr>team_id = 1, team_name = ''Data''\<rparr>]\<rparr>)
               (ex_case DRAFT) None ''Mark Ready to Send'' '''' 1 2 = Inr (True, c', s') \<and>
            tasks c' = [])"
proof -
  define s where "s = empty_session\<lparr>db_teams := [\<lparr>team_id = 1, team_name = ''Data''\<rparr>]\<rparr>"
  have h1: "TRANSITIONS (status (ex_case DRAFT), ''Mark Ready to Send'')
     = Some (READY_TO_SEND, ''ready_to_send'')"
    by (simp add: TRANSITIONS_def TRANSITIONS_items_def ex_case_def)
  have h2: "NEXT_TEAM_HINT_get READY_TO_SEND = Some ''Admin Solution''"
    by (simp add: NEXT_TEAM_HINT_get_simps)
  have h3: "\<forall>t \<in> set (db_teams s). team_name t \<noteq> ''Admin Solution''"
    by (simp add: s_def empty_session_def)
  have h4: "days_in_range 1 (sla_days (ex_case DRAFT))"
    by (simp add: ex_case_def days_in_range_def timedelta_def datetime_max_def)
  have e: "tasks (ex_case DRAFT) = []"
    by (simp add: ex_case_def)
  from missing_team_no_task [of "ex_case DRAFT" "''Mark Ready to Send''" READY_TO_SEND
      "''ready_to_send''" "''Admin Solution''" s 1 "''t''" 5 2 CaseStatus_value None "''''",
      OF h1 h2 h3 h4]
  obtain c' s' where
    "apply_transition CaseStatus_value s (ex_case DRAFT) None ''Mark Ready to Send'' '''' 1 2
       = Inr (True, c', s')"
    "tasks c' = tasks (ex_case DRAFT)"
    by blast
  with e have "\<exists>c' s'. apply_transition CaseStatus_value s (ex_case DRAFT) None
      ''Mark Ready to Send'' '''' 1 2 = Inr (True, c', s') \<and> tasks c' = []"
    by simp
  with h1 h2 h3 h4 show ?thesis
    unfolding s_def by (simp add: list_all_iff)
qed

section \<open>The transition table\<close>

text \<open>The nine entries of the table, read back from its lookup.\<close>

lemma TRANSITIONS_Some_cases:
  assumes "TRANSITIONS (s, l) = Some (t, a)"
  shows "((s, l), (t, a)) \<in> set TRANSITIONS_items"
  using assms unfolding TRANSITIONS_def by (rule map_of_SomeD)

lemma TRANSITIONS_rank:
  assumes "TRANSITIONS (s, l) = Some (t, a)"
  shows "workflow_rank t = Suc (workflow_rank s)"
  using TRANSITIONS_Some_cases [OF assms]
  by (auto simp: TRANSITIONS_items_def)

lemma TRANSITIONS_labels_distinct:
  "distinct (map (\<lambda>((st_from, label), _). label) TRANSITIONS_items)"
  by (simp add: TRANSITIONS_items_def)

lemma TRANSITIONS_no_repeat:
  assumes "TRANSITIONS (s, l) = Some (t, a)"
  shows "TRANSITIONS (t, l) = None"
proof (rule ccontr)
  assume "TRANSITIONS (t, l) \<noteq> None"
  then obtain u b where next_key: "TRANSITIONS (t, l) = Some (u, b)"
    by auto
  have inj: "inj_on (\<lambda>((st_from, label), _). label) (set TRANSITIONS_items)"
    using TRANSITIONS_labels_distinct by (simp add: distinct_map)
  have "((s, l), (t, a)) = ((t, l), (u, b))"
    by (rule inj_onD [OF inj _ TRANSITIONS_Some_cases [OF assms]
          TRANSITIONS_Some_cases [OF next_key]]) simp
  then have "s = t" by simp
  with TRANSITIONS_rank [OF assms] show False by simp
qed

lemma available_simps:
  "available DRAFT = [''Mark Ready to Send'']"
  "available READY_TO_SEND = [''Send to Client'']"
  "available SENT_TO_CLIENT = [''Mark Client Signed'', ''Mark Client Opted Out'']"
  "available CLIENT_SIGNED = [''Mark Docs Received'']"
  "available CLIENT_OPTED_OUT = []"
  "available RECEIVED_PAPERWORK = [''Submit to Provider'']"
  "available SUBMITTED_TO_PROVIDER = [''Provider Uplifted'']"
  "available PROVIDER_UPLIFTED = [''Close Fee in IO & Create New'']"
  "available IO_CLOSED_NEW_FEE = [''Complete Case'']"
  "available COMPLETED = []"
  by (simp_all add: available_def TRANSITIONS_items_def)

lemma TRANSITIONS_available:
  "TRANSITIONS (s, l) \<noteq> None \<longleftrightarrow> l \<in> set (available s)"
  by (cases s) (auto simp: available_simps TRANSITIONS_def TRANSITIONS_items_def)

lemma non_terminal_statuses:
  "{s. s \<noteq> CLIENT_OPTED_OUT \<and> s \<noteq> COMPLETED} =
    {DRAFT, READY_TO_SEND, SENT_TO_CLIENT, CLIENT_SIGNED, RECEIVED_PAPERWORK,
     SUBMITTED_TO_PROVIDER, PROVIDER_UPLIFTED, IO_CLOSED_NEW_FEE}"
proof -
  have "s \<noteq> CLIENT_OPTED_OUT \<and> s \<noteq> COMPLETED \<longleftrightarrow>
        s \<in> {DRAFT, READY_TO_SEND, SENT_TO_CLIENT, CLIENT_SIGNED, RECEIVED_PAPERWORK,
             SUBMITTED_TO_PROVIDER, PROVIDER_UPLIFTED, IO_CLOSED_NEW_FEE}" for s
    by (cases s) simp_all
  then show ?thesis by blast
qed

text \<open>
  C7. \<open>CLIENT_OPTED_OUT\<close> and \<open>COMPLETED\<close> are the source of no transition: no label
  is a key with them, and the case detail page offers none. Each of the other statuses,
  eight in number, is the source of one or of two transitions, the labels of one status
  are distinct and are exactly the labels the table accepts for it, and no key and no
  label occurs twice in the table.
\<close>

theorem transition_table_shape:
  "(\<forall>l. TRANSITIONS (CLIENT_OPTED_OUT, l) = None \<and> TRANSITIONS (COMPLETED, l) = None) \<and>
   available CLIENT_OPTED_OUT = [] \<and> available COMPLETED = [] \<and>
   (\<forall>s. s \<noteq> CLIENT_OPTED_OUT \<and> s \<noteq> COMPLETED \<longrightarrow>
        (length (available s) = 1 \<or> length (available s) = 2) \<and>
        distinct (available s) \<and>
        (\<forall>l. TRANSITIONS (s, l) \<noteq> None \<longleftrightarrow> l \<in> set (available s))) \<and>
   card {s. s \<noteq> CLIENT_OPTED_OUT \<and> s \<noteq> COMPLETED} = 8 \<and>
   distinct (map fst TRANSITIONS_items) \<and>
   distinct (map (\<lambda>((st_from, label), _). label) TRANSITIONS_items)"
proof -
  have terminal: "\<forall>l. TRANSITIONS (CLIENT_OPTED_OUT, l) = None \<and> TRANSITIONS (COMPLETED, l) = None"
    by (simp add: TRANSITIONS_def TRANSITIONS_items_def)
  have shape: "(length (available s) = 1 \<or> length (available s) = 2) \<and> distinct (available s)"
    if "s \<noteq> CLIENT_OPTED_OUT \<and> s \<noteq> COMPLETED" for s
    using that by (cases s) (simp_all add: available_simps)
  have count: "card {s. s \<noteq> CLIENT_OPTED_OUT \<and> s \<noteq> COMPLETED} = 8"
    by (simp add: non_terminal_statuses)
  have keys: "distinct (map fst TRANSITIONS_items)"
    by (simp add: TRANSITIONS_items_def)
  note labels = TRANSITIONS_labels_distinct
  from terminal shape count keys labels TRANSITIONS_available show ?thesis
    by (simp add: available_simps)
qed

text \<open>\<open>SENT_TO_CLIENT\<close> is the status with two outgoing transitions.\<close>

theorem transition_table_shape_witness:
  "SENT_TO_CLIENT \<noteq> CLIENT_OPTED_OUT \<and> SENT_TO_CLIENT \<noteq> COMPLETED \<and>
   length (available SENT_TO_CLIENT) = 2 \<and> distinct (available SENT_TO_CLIENT) \<and>
   TRANSITIONS (SENT_TO_CLIENT, ''Mark Client Signed'') \<noteq> None"
proof -
  have h: "SENT_TO_CLIENT \<noteq> CLIENT_OPTED_OUT \<and> SENT_TO_CLIENT \<noteq> COMPLETED"
    by simp
  from transition_table_shape have
    "\<forall>s. s \<noteq> CLIENT_OPTED_OUT \<and> s \<noteq> COMPLETED \<longrightarrow>
        (length (available s) = 1 \<or> length (available s) = 2) \<and>
        distinct (available s) \<and>
        (\<forall>l. TRANSITIONS (s, l) \<noteq> None \<longleftrightarrow> l \<in> set (available s))"
    by blast
  with h have "distinct (available SENT_TO_CLIENT)"
    "TRANSITIONS (SENT_TO_CLIENT, ''Mark Client Signed'') \<noteq> None
       \<longleftrightarrow> ''Mark Client Signed'' \<in> set (available SENT_TO_CLIENT)"
    by blast+
  then show ?thesis
    by (simp add: available_simps)
qed

text \<open>A label is a key with one status only, and a transition never stays where it is.\<close>

lemma TRANSITIONS_label_source:
  assumes "TRANSITIONS (s, l) \<noteq> None" and "TRANSITIONS (s', l) \<noteq> None"
  shows "s = s'"
proof -
  from assms obtain t a t' a' where
    k: "TRANSITIONS (s, l) = Some (t, a)" and k': "TRANSITIONS (s', l) = Some (t', a')"
    by auto
  have inj: "inj_on (\<lambda>((st_from, label), _). label) (set TRANSITIONS_items)"
    using TRANSITIONS_labels_distinct by (simp add: distinct_map)
  have "((s, l), (t, a)) = ((s', l), (t', a'))"
    by (rule inj_onD [OF inj _ TRANSITIONS_Some_cases [OF k] TRANSITIONS_Some_cases [OF k']])
       simp
  then show ?thesis by simp
qed

lemma TRANSITIONS_moves:
  assumes "TRANSITIONS (s, l) = Some (t, a)"
  shows "t \<noteq> s"
  using TRANSITIONS_rank [OF assms] by auto

text \<open>
  C6. For every entry \<open>(from_status, action_label) \<mapsto> to_status\<close> of the table, the
  pair \<open>(to_status, action_label)\<close> is not a key. So after a successful call the same
  label is rejected: a second call, with any user, notes and clock, returns \<open>False\<close> and
  leaves the case and the session exactly as the first call left them.
\<close>

theorem apply_transition_rejects_repeat:
  assumes "TRANSITIONS (from_status, action_label) = Some (to_status, audit_action)"
  shows "TRANSITIONS (to_status, action_label) = None \<and>
         (\<forall>fmt session c user notes now now_task c' s'.
            status c = from_status \<and>
            apply_transition fmt session c user action_label notes now now_task
              = Inr (True, c', s')
            \<longrightarrow> (\<forall>fmt2 user2 notes2 now2 now_task2.
                   apply_transition fmt2 s' c' user2 action_label notes2 now2 now_task2
                     = Inr (False, c', s')))"
proof -
  have again: "TRANSITIONS (to_status, action_label) = None"
    using assms by (rule TRANSITIONS_no_repeat)
  have "apply_transition fmt2 s' c' user2 action_label notes2 now2 now_task2
          = Inr (False, c', s')"
    if "status c = from_status"
      and "apply_transition fmt session c user action_label notes1 now now_task
             = Inr (True, c', s')"
    for fmt session c user notes1 now now_task c' s' fmt2 user2 notes2 now2 now_task2
  proof -
    from that(2) obtain ns aa where
      "TRANSITIONS (status c, action_label) = Some (ns, aa)" "status c' = ns"
      by (rule apply_transition_legal)
    with that(1) assms have "status c' = to_status" by simp
    with again show ?thesis by (simp add: apply_transition_def)
  qed
  with again show ?thesis by blast
qed

text \<open>A draft is marked ready twice: the second call is rejected and changes nothing.\<close>

theorem apply_transition_rejects_repeat_witness:
  "TRANSITIONS (DRAFT, ''Mark Ready to Send'') = Some (READY_TO_SEND, ''ready_to_send'') \<and>
   status (ex_case DRAFT) = DRAFT \<and>
   (\<exists>c' s'. apply_transition CaseStatus_value (bootstrap_db empty_session) (ex_case DRAFT)
               None ''Mark Ready to Send'' '''' 1 2 = Inr (True, c', s') \<and>
            apply_transition CaseStatus_value s' c' None ''Mark Ready to Send'' ''again'' 3 4
              = Inr (False, c', s'))"
proof -
  have k: "TRANSITIONS (DRAFT, ''Mark Ready to Send'') = Some (READY_TO_SEND, ''ready_to_send'')"
    by (simp add: TRANSITIONS_def TRANSITIONS_items_def)
  have st: "status (ex_case DRAFT) = DRAFT"
    by (simp add: ex_case_def)
  have r: "days_in_range 1 (sla_days (ex_case DRAFT))" "days_in_range 2 5"
    by (simp_all add: ex_case_def days_in_range_def timedelta_def datetime_max_def)
  from apply_transition_in_range [OF r, of CaseStatus_value "bootstrap_db empty_session"
      None "''Mark Ready to Send''" "''''"] k st
  obtain c' s' where
    h: "apply_transition CaseStatus_value (bootstrap_db empty_session) (ex_case DRAFT)
               None ''Mark Ready to Send'' '''' 1 2 = Inr (True, c', s')"
    by auto
  from apply_transition_rejects_repeat [OF k] st h
  have "apply_transition CaseStatus_value s' c' None ''Mark Ready to Send'' ''again'' 3 4
          = Inr (False, c', s')"
    by blast
  with k st h show ?thesis by blast
qed

section \<open>Two callers on one case\<close>

text \<open>
  C9, as the code has it. \<open>apply_transition\<close> takes no lock, checks no version and has
  no conflict outcome: it decides on the status held in the caller's own copy of the
  case. Two calls that start from the same loaded case, each with a label that is valid
  for its status and with clock readings that keep the due dates in range, both return
  \<open>True\<close>. Calls are serialised only when they are made one after the other on the same
  object: on the case and the session the first call left, the second call returns
  \<open>False\<close> and changes nothing.
\<close>

theorem apply_transition_no_conflict_check:
  assumes "TRANSITIONS (status c, label_a) \<noteq> None"
    and "TRANSITIONS (status c, label_b) \<noteq> None"
    and "days_in_range now_a (sla_days c)" and "days_in_range task_a 5"
    and "days_in_range now_b (sla_days c)" and "days_in_range task_b 5"
  shows "\<exists>ca sa cb sb.
           apply_transition fmt session_a c user_a label_a notes_a now_a task_a
             = Inr (True, ca, sa) \<and>
           apply_transition fmt session_b c user_b label_b notes_b now_b task_b
             = Inr (True, cb, sb) \<and>
           apply_transition fmt sa ca user_b label_b notes_b now_b task_b
             = Inr (False, ca, sa)"
proof -
  from apply_transition_in_range [OF assms(3) assms(4), of fmt session_a user_a label_a notes_a]
    assms(1)
  obtain ca sa where
    a: "apply_transition fmt session_a c user_a label_a notes_a now_a task_a
          = Inr (True, ca, sa)"
    by auto
  from apply_transition_in_range [OF assms(5) assms(6), of fmt session_b user_b label_b notes_b]
    assms(2)
  obtain cb sb where
    b: "apply_transition fmt session_b c user_b label_b notes_b now_b task_b
          = Inr (True, cb, sb)"
    by auto
  from a obtain ns aa where
    k: "TRANSITIONS (status c, label_a) = Some (ns, aa)" and st: "status ca = ns"
    by (rule apply_transition_legal)
  have "TRANSITIONS (status ca, label_b) = None"
  proof (rule ccontr)
    assume "TRANSITIONS (status ca, label_b) \<noteq> None"
    with assms(2) have "status c = status ca" by (rule TRANSITIONS_label_source)
    with st TRANSITIONS_moves [OF k] show False by simp
  qed
  then have "apply_transition fmt sa ca user_b label_b notes_b now_b task_b
               = Inr (False, ca, sa)"
    by (simp add: apply_transition_def)
  with a b show ?thesis by blast
qed

text \<open>
  One caller marks a case that was sent to the client as signed while another, holding
  the same loaded case, marks it as opted out.
\<close>

theorem apply_transition_no_conflict_check_witness:
  "TRANSITIONS (status (ex_case SENT_TO_CLIENT), ''Mark Client Signed'') \<noteq> None \<and>
   TRANSITIONS (status (ex_case SENT_TO_CLIENT), ''Mark Client Opted Out'') \<noteq> None \<and>
   days_in_range 1 (sla_days (ex_case SENT_TO_CLIENT)) \<and> days_in_range 2 5 \<and>
   days_in_range 3 (sla_days (ex_case SENT_TO_CLIENT)) \<and> days_in_range 4 5 \<and>
   (\<exists>ca sa cb sb.
      apply_transition CaseStatus_value (bootstrap_db empty_session) (ex_case SENT_TO_CLIENT)
          (Some \<lparr>user_id = 1, user_name = ''Al''\<rparr>) ''Mark Client Signed'' '''' 1 2
        = Inr (True, ca, sa) \<and>
      apply_transition CaseStatus_value (bootstrap_db empty_session) (ex_case SENT_TO_CLIENT)
          (Some \<lparr>user_id = 2, user_name = ''Bo''\<rparr>) ''Mark Client Opted Out'' '''' 3 4
        = Inr (True, cb, sb) \<and>
      apply_transition CaseStatus_value sa ca
          (Some \<lparr>user_id = 2, user_name = ''Bo''\<rparr>) ''Mark Client Opted Out'' '''' 3 4
        = Inr (False, ca, sa))"
proof -
  have k: "TRANSITIONS (status (ex_case SENT_TO_CLIENT), ''Mark Client Signed'') \<noteq> None"
    "TRANSITIONS (status (ex_case SENT_TO_CLIENT), ''Mark Client Opted Out'') \<noteq> None"
    by (simp_all add: TRANSITIONS_def TRANSITIONS_items_def ex_case_def)
  have r: "days_in_range 1 (sla_days (ex_case SENT_TO_CLIENT))" "days_in_range 2 5"
    "days_in_range 3 (sla_days (ex_case SENT_TO_CLIENT))" "days_in_range 4 5"
    by (simp_all add: ex_case_def days_in_range_def timedelta_def datetime_max_def)
  from apply_transition_no_conflict_check [OF k r] k r show ?thesis
    by blast
qed

text \<open>
  The claim as written fails: two callers who each loaded the case in
  \<open>READY_TO_SEND\<close> and each ask to send it to the client both succeed, and neither is
  told of the other.
\<close>

theorem two_callers_both_succeed:
  "(\<exists>ca sa. apply_transition CaseStatus_value (bootstrap_db empty_session)
               (ex_case READY_TO_SEND) (Some \<lparr>user_id = 1, user_name = ''Al''\<rparr>)
               ''Send to Client'' '''' 1 2 = Inr (True, ca, sa) \<and>
             status ca = SENT_TO_CLIENT) \<and>
   (\<exists>cb sb. apply_transition CaseStatus_value (bootstrap_db empty_session)
               (ex_case READY_TO_SEND) (Some \<lparr>user_id = 2, user_name = ''Bo''\<rparr>)
               ''Send to Client'' '''' 3 4 = Inr (True, cb, sb) \<and>
             status cb = SENT_TO_CLIENT)"
  by (simp add: engine_defs fixture_defs Let_def)

section \<open>Runs of transitions\<close>

text \<open>A legal call whose clock and SLA take the due date out of range raises at the SLA
  line, with the new status already on the case.\<close>

lemma apply_transition_overflow:
  assumes "TRANSITIONS (status c, action_label) = Some (new_status, audit_action)"
    and "\<not> days_in_range now (sla_days c)"
  shows "apply_transition fmt session c user action_label notes now now_task
           = Inl (OverflowError, c\<lparr>status := new_status\<rparr>, session)"
  using assms by (simp add: apply_transition_def datetime_plus_days_def Let_def)

text \<open>A run whose clock readings stay in range returns, and goes through the statuses
  the table dictates.\<close>

lemma apply_labels_in_range:
  assumes "list_all (step_in_range (sla_days c)) steps"
  shows "\<exists>c' s'. apply_labels fmt session c steps
                   = Inr (fst (follow_labels (status c) (map step_label steps)), c', s') \<and>
                 status c' = snd (follow_labels (status c) (map step_label steps)) \<and>
                 sla_days c' = sla_days c"
  using assms
proof (induction steps arbitrary: session c)
  case Nil
  show ?case by simp
next
  case (Cons x steps)
  obtain user action_label nts now now_task where x: "x = (user, action_label, nts, now, now_task)"
    by (cases x)
  from Cons.prems x have r: "days_in_range now (sla_days c)" "days_in_range now_task 5"
    and rest: "list_all (step_in_range (sla_days c)) steps"
    by (simp_all add: step_in_range_def)
  from apply_transition_in_range [OF r, of fmt session user action_label nts]
  obtain c1 s1 where
    call: "apply_transition fmt session c user action_label nts now now_task
             = Inr (TRANSITIONS (status c, action_label) \<noteq> None, c1, s1)" and
    st: "status c1 = (case TRANSITIONS (status c, action_label) of
                        None \<Rightarrow> status c | Some (t, a) \<Rightarrow> t)" and
    sla: "sla_days c1 = sla_days c"
    by blast
  from rest sla have "list_all (step_in_range (sla_days c1)) steps" by simp
  from Cons.IH [OF this, of s1] obtain c' s' where
    run: "apply_labels fmt s1 c1 steps
            = Inr (fst (follow_labels (status c1) (map step_label steps)), c', s')" and
    st': "status c' = snd (follow_labels (status c1) (map step_label steps))" and
    sla': "sla_days c' = sla_days c1"
    by blast
  have sl: "step_label x = action_label"
    using x by (simp add: step_label_def)
  show ?case
  proof (cases "TRANSITIONS (status c, action_label)")
    case None
    with x sl call st run st' sla sla' show ?thesis
      by (simp add: case_prod_beta)
  next
    case (Some ta)
    with x sl call st run st' sla sla' show ?thesis
      by (cases ta) (simp add: case_prod_beta)
  qed
qed

text \<open>A run whose last call succeeded into \<open>COMPLETED\<close> ends with no assigned team.\<close>

lemma apply_labels_completed:
  assumes "apply_labels fmt session c steps = Inr (results, c', s')"
    and "steps \<noteq> []"
    and "last results = (True, COMPLETED)"
  shows "assigned_team c' = None"
  using assms
proof (induction steps arbitrary: session c results)
  case Nil
  then show ?case by simp
next
  case (Cons x steps)
  obtain user action_label nts now now_task where x: "x = (user, action_label, nts, now, now_task)"
    by (cases x)
  from Cons.prems(1) x obtain ok c1 s1 oks where
    call: "apply_transition fmt session c user action_label nts now now_task = Inr (ok, c1, s1)"
    and run: "apply_labels fmt s1 c1 steps = Inr (oks, c', s')"
    and res: "results = (ok, status c1) # oks"
    by (auto split: sum.splits)
  show ?case
  proof (cases "steps = []")
    case True
    with run res Cons.prems(3) have "ok" "status c1 = COMPLETED" "c' = c1"
      by simp_all
    with call have "apply_transition fmt session c user action_label nts now now_task
                      = Inr (True, c', s1)"
      by simp
    then obtain ns aa where "status c' = ns"
      "assigned_team c' =
        (case NEXT_TEAM_HINT_get ns of
           None \<Rightarrow> None
         | Some hint \<Rightarrow> find (\<lambda>t. team_name t = hint) (db_teams session))"
      by (rule apply_transition_legal)
    with \<open>status c1 = COMPLETED\<close> \<open>c' = c1\<close> show ?thesis
      by (auto simp: NEXT_TEAM_HINT_get_simps)
  next
    case False
    then obtain y ys where "steps = y # ys" by (cases steps) auto
    with run have "oks \<noteq> []"
      by (cases y) (auto split: sum.splits)
    with res Cons.prems(3) have "last oks = (True, COMPLETED)" by simp
    from Cons.IH [OF run False this] show ?thesis .
  qed
qed

text \<open>Every successful call moves the case one transition further from \<open>DRAFT\<close>, and no
  status is more than eight transitions away: no chain of nine labels is legal.\<close>

lemma workflow_rank_le: "workflow_rank s \<le> 8"
  by (cases s) simp_all

lemma follow_labels_all_ok:
  assumes "list_all fst (fst (follow_labels s ls))"
  shows "workflow_rank s + length ls \<le> 8"
  using assms
proof (induction ls arbitrary: s)
  case Nil
  show ?case by (simp add: workflow_rank_le)
next
  case (Cons l ls)
  show ?case
  proof (cases "TRANSITIONS (s, l)")
    case None
    with Cons.prems show ?thesis by (simp split: prod.splits)
  next
    case (Some ta)
    obtain t a where ta: "ta = (t, a)" by (cases ta)
    with Some Cons.prems have "list_all fst (fst (follow_labels t ls))"
      by (simp split: prod.splits)
    then have "workflow_rank t + length ls \<le> 8" by (rule Cons.IH)
    moreover have "workflow_rank t = Suc (workflow_rank s)"
      using Some ta by (simp add: TRANSITIONS_rank)
    ultimately show ?thesis by simp
  qed
qed

lemma no_chain_of_nine:
  assumes "length ls = 9"
  shows "\<not> list_all fst (fst (follow_labels DRAFT ls))"
proof
  assume "list_all fst (fst (follow_labels DRAFT ls))"
  then have "workflow_rank DRAFT + length ls \<le> 8" by (rule follow_labels_all_ok)
  with assms show False by simp
qed

lemma create_case_fresh:
  "status (fst (create_case session user ttl cname pname sig sla t0)) = DRAFT"
  "sla_days (fst (create_case session user ttl cname pname sig sla t0)) = sla"
  "due_at (fst (create_case session user ttl cname pname sig sla t0)) = None"
  by (simp_all add: create_case_def log_action_def assign_next_team_other Let_def
        split: option.splits prod.splits)

lemma follow_legal_path:
  "follow_labels DRAFT
     [''Mark Ready to Send'', ''Send to Client'', ''Mark Client Signed'', ''Mark Docs Received'',
      ''Submit to Provider'', ''Provider Uplifted'', ''Close Fee in IO & Create New'',
      ''Complete Case'']
   = ([(True, READY_TO_SEND), (True, SENT_TO_CLIENT), (True, CLIENT_SIGNED),
       (True, RECEIVED_PAPERWORK), (True, SUBMITTED_TO_PROVIDER), (True, PROVIDER_UPLIFTED),
       (True, IO_CLOSED_NEW_FEE), (True, COMPLETED)], COMPLETED)"
  by (simp add: TRANSITIONS_def TRANSITIONS_items_def)

text \<open>
  C5, as the code has it. The legal path from \<open>DRAFT\<close> to \<open>COMPLETED\<close> through
  \<open>CLIENT_SIGNED\<close> has nine statuses and eight transitions. Starting from a freshly
  created case, applying its eight action labels in order, with any users and notes and
  with clock readings that keep the due dates of the case and of its tasks in the range
  of a datetime, returns at every step, succeeds at every step, goes through the
  statuses of the path, and ends in \<open>COMPLETED\<close> with no assigned team.
\<close>

theorem full_legal_path_succeeds:
  assumes "create_case session user ttl cname pname sig sla t0 = (c0, s0)"
    and "map step_label steps =
      [''Mark Ready to Send'', ''Send to Client'', ''Mark Client Signed'', ''Mark Docs Received'',
       ''Submit to Provider'', ''Provider Uplifted'', ''Close Fee in IO & Create New'',
       ''Complete Case'']"
    and "list_all (step_in_range sla) steps"
  shows "status c0 = DRAFT \<and>
         (\<exists>c' s'. apply_labels fmt s0 c0 steps
                     = Inr ([(True, READY_TO_SEND), (True, SENT_TO_CLIENT), (True, CLIENT_SIGNED),
                             (True, RECEIVED_PAPERWORK), (True, SUBMITTED_TO_PROVIDER),
                             (True, PROVIDER_UPLIFTED), (True, IO_CLOSED_NEW_FEE),
                             (True, COMPLETED)], c', s') \<and>
                  status c' = COMPLETED \<and> assigned_team c' = None)"
proof -
  have draft: "status c0 = DRAFT" and sla: "sla_days c0 = sla"
    using create_case_fresh [of session user ttl cname pname sig sla t0] assms(1)
    by simp_all
  from assms(3) sla have "list_all (step_in_range (sla_days c0)) steps" by simp
  from apply_labels_in_range [OF this, of fmt s0] obtain c' s' where
    run: "apply_labels fmt s0 c0 steps
            = Inr (fst (follow_labels (status c0) (map step_label steps)), c', s')" and
    st: "status c' = snd (follow_labels (status c0) (map step_label steps))"
    by blast
  have path: "follow_labels (status c0) (map step_label steps)
      = ([(True, READY_TO_SEND), (True, SENT_TO_CLIENT), (True, CLIENT_SIGNED),
          (True, RECEIVED_PAPERWORK), (True, SUBMITTED_TO_PROVIDER), (True, PROVIDER_UPLIFTED),
          (True, IO_CLOSED_NEW_FEE), (True, COMPLETED)], COMPLETED)"
    unfolding draft assms(2) by (rule follow_legal_path)
  from run path have run': "apply_labels fmt s0 c0 steps
      = Inr ([(True, READY_TO_SEND), (True, SENT_TO_CLIENT), (True, CLIENT_SIGNED),
              (True, RECEIVED_PAPERWORK), (True, SUBMITTED_TO_PROVIDER),
              (True, PROVIDER_UPLIFTED), (True, IO_CLOSED_NEW_FEE), (True, COMPLETED)], c', s')"
    by simp
  from st path have fin: "status c' = COMPLETED" by simp
  from assms(2) have "steps \<noteq> []" by auto
  with run' have "assigned_team c' = None"
    by (rule apply_labels_completed) simp
  with draft run' fin show ?thesis by blast
qed

text \<open>The eight calls of the legal path, a day apart, on a case created at the start of 2025 on the
  bootstrapped store with an SLA of ten days.\<close>

theorem full_legal_path_succeeds_witness:
  "map step_label (ex_steps t_2025) =
      [''Mark Ready to Send'', ''Send to Client'', ''Mark Client Signed'', ''Mark Docs Received'',
       ''Submit to Provider'', ''Provider Uplifted'', ''Close Fee in IO & Create New'',
       ''Complete Case''] \<and>
   list_all (step_in_range 10) (ex_steps t_2025) \<and>
   status (fst (ex_created 10 t_2025)) = DRAFT \<and>
   (\<exists>results c' s'.
      apply_labels CaseStatus_value (snd (ex_created 10 t_2025)) (fst (ex_created 10 t_2025)) (ex_steps t_2025)
        = Inr (results, c', s') \<and>
      map fst results = replicate 8 True \<and>
      status c' = COMPLETED \<and> assigned_team c' = None)"
proof -
  have h1: "create_case (bootstrap_db empty_session) None ''Fee uplift''
              ''Ann Client'' ''Acme Provider'' DOCUSIGN 10 t_2025
            = (fst (ex_created 10 t_2025), snd (ex_created 10 t_2025))"
    by (simp add: ex_created_def)
  have h2: "map step_label (ex_steps t_2025) =
      [''Mark Ready to Send'', ''Send to Client'', ''Mark Client Signed'', ''Mark Docs Received'',
       ''Submit to Provider'', ''Provider Uplifted'', ''Close Fee in IO & Create New'',
       ''Complete Case'']"
    by (simp add: ex_steps_def step_label_def)
  have h3: "list_all (step_in_range 10) (ex_steps t_2025)"
    by (simp add: ex_steps_def step_in_range_def days_in_range_def timedelta_def
          datetime_max_def t_2025_def)
  from full_legal_path_succeeds [OF h1 h2 h3, of CaseStatus_value]
  obtain c' s' where
    "status (fst (ex_created 10 t_2025)) = DRAFT"
    "apply_labels CaseStatus_value (snd (ex_created 10 t_2025)) (fst (ex_created 10 t_2025)) (ex_steps t_2025)
       = Inr ([(True, READY_TO_SEND), (True, SENT_TO_CLIENT), (True, CLIENT_SIGNED),
               (True, RECEIVED_PAPERWORK), (True, SUBMITTED_TO_PROVIDER),
               (True, PROVIDER_UPLIFTED), (True, IO_CLOSED_NEW_FEE), (True, COMPLETED)], c', s')"
    "status c' = COMPLETED" "assigned_team c' = None"
    by blast
  with h2 h3 show ?thesis
    by (simp add: numeral_eq_Suc)
qed

text \<open>
  The claim as written fails for a case whose SLA the creation form accepts and the
  datetime type cannot follow: a case created at the start of 2025 with an SLA of three
  million days. The first call of the path, a day later, sets the status and then raises
  \<open>OverflowError\<close> at the SLA line, as its due date would lie after the year 9999: the
  step does not succeed and the run ends there.
\<close>

theorem large_sla_first_step_raises:
  "status (fst (ex_created 3000000 t_2025)) = DRAFT \<and>
   sla_days (fst (ex_created 3000000 t_2025)) = 3000000 \<and>
   map step_label (ex_steps t_2025) =
      [''Mark Ready to Send'', ''Send to Client'', ''Mark Client Signed'', ''Mark Docs Received'',
       ''Submit to Provider'', ''Provider Uplifted'', ''Close Fee in IO & Create New'',
       ''Complete Case''] \<and>
   apply_labels CaseStatus_value (snd (ex_created 3000000 t_2025))
       (fst (ex_created 3000000 t_2025)) (ex_steps t_2025)
     = Inl (OverflowError, (fst (ex_created 3000000 t_2025))\<lparr>status := READY_TO_SEND\<rparr>,
            snd (ex_created 3000000 t_2025))"
proof -
  let ?c = "fst (ex_created 3000000 t_2025)"
  have st: "status ?c = DRAFT" and sla: "sla_days ?c = 3000000"
    by (simp_all add: ex_created_def create_case_fresh)
  have k: "TRANSITIONS (status ?c, ''Mark Ready to Send'') = Some (READY_TO_SEND, ''ready_to_send'')"
    by (simp add: st TRANSITIONS_def TRANSITIONS_items_def)
  have r: "\<not> days_in_range (t_2025 + timedelta 1) (sla_days ?c)"
    unfolding sla by (simp add: days_in_range_def timedelta_def datetime_max_def t_2025_def)
  have labels: "map step_label (ex_steps t_2025) =
      [''Mark Ready to Send'', ''Send to Client'', ''Mark Client Signed'', ''Mark Docs Received'',
       ''Submit to Provider'', ''Provider Uplifted'', ''Close Fee in IO & Create New'',
       ''Complete Case'']"
    by (simp add: ex_steps_def step_label_def)
  have "apply_labels CaseStatus_value (snd (ex_created 3000000 t_2025)) ?c (ex_steps t_2025)
     = Inl (OverflowError, ?c\<lparr>status := READY_TO_SEND\<rparr>, snd (ex_created 3000000 t_2025))"
    unfolding ex_steps_def by (simp add: apply_transition_overflow [OF k r])
  with st sla labels show ?thesis by simp
qed

section \<open>Case creation\<close>

text \<open>
  C8. The claim asks that creating a case with an empty client name or an empty provider
  name be rejected before any record is persisted. The \<open>Create Case\<close> handler tests
  neither name, and the file defines no validation error. On the empty form it raises
  nothing: it persists a provider and a client whose name is the empty string, the case,
  and its \<open>created\<close> audit entry, where the Admin forms of the same file skip an empty
  team or provider name.
\<close>

theorem create_case_accepts_empty_names:
  "db_providers (snd (create_case (bootstrap_db empty_session) None ''Fee uplift'' '''' ''''
       DOCUSIGN 10 t_2025)) = [\<lparr>provider_id = 1, provider_name = ''''\<rparr>] \<and>
   db_clients (snd (create_case (bootstrap_db empty_session) None ''Fee uplift'' '''' ''''
       DOCUSIGN 10 t_2025)) = [\<lparr>client_id = 1, client_name = '''', client_provider_id = 1\<rparr>] \<and>
   map case_id (db_cases (snd (create_case (bootstrap_db empty_session) None ''Fee uplift''
       '''' '''' DOCUSIGN 10 t_2025))) = [Some 1] \<and>
   map auditlog_action (db_audit_logs (snd (create_case (bootstrap_db empty_session) None
       ''Fee uplift'' '''' '''' DOCUSIGN 10 t_2025))) = [''created''] \<and>
   case_id (fst (create_case (bootstrap_db empty_session) None ''Fee uplift'' '''' ''''
       DOCUSIGN 10 t_2025)) = Some 1 \<and>
   status (fst (create_case (bootstrap_db empty_session) None ''Fee uplift'' '''' ''''
       DOCUSIGN 10 t_2025)) = DRAFT"
  by (simp add: create_case_def log_action_def assign_next_team_def NEXT_TEAM_HINT_get_def
        NEXT_TEAM_HINT_def fresh_id_def List.map_filter_def Let_def fixture_defs)

end
